theory Spec2Isabelle
  imports Main "HOL-Library.Word"
begin

section \<open>Data model of the parser driver (src/runtime/parser.c)\<close>

text \<open>
  \<^verbatim>\<open>TSStateId\<close> and \<^verbatim>\<open>TSSymbol\<close> are \<^verbatim>\<open>unsigned short\<close>; counts, sizes and
  positions are \<^verbatim>\<open>size_t\<close> and are modelled as \<open>nat\<close> (the one place where the code
  adds to a \<^verbatim>\<open>size_t\<close> field writes the wrap-around out).
\<close>

type_synonym TSStateId = "16 word"
type_synonym TSSymbol = "16 word"
type_synonym StackVersion = nat

text \<open>
  Modelled from the spec: the reserved ids. Their macros live in headers that are not
  under src/ (tree_sitter/parser.h, runtime/tree.h); the values are the ones of those
  headers, \<^verbatim>\<open>((TSSymbol)-1)\<close>, \<^verbatim>\<open>((TSStateId)-1)\<close>, \<^verbatim>\<open>(unsigned short)(-1)\<close> and one less.
\<close>

definition ts_builtin_sym_error :: TSSymbol where
  "ts_builtin_sym_error = - 1"

definition ts_builtin_sym_end :: TSSymbol where
  "ts_builtin_sym_end = 0"

definition ts_parse_state_error :: TSStateId where
  "ts_parse_state_error = - 1"

definition TS_TREE_STATE_INDEPENDENT :: TSStateId where
  "TS_TREE_STATE_INDEPENDENT = - 1"

definition TS_TREE_STATE_ERROR :: TSStateId where
  "TS_TREE_STATE_ERROR = TS_TREE_STATE_INDEPENDENT - 1"

text \<open>
  \<^verbatim>\<open>TSTree\<close>: the scalar fields are a record, the children a list
  (\<^verbatim>\<open>child_count\<close> is its length). \<^verbatim>\<open>size.chars\<close> and \<^verbatim>\<open>padding.chars\<close> are the only
  components of the two \<^verbatim>\<open>TSLength\<close> fields that the driver reads. A \<^verbatim>\<open>TSTree *\<close> that may be
  \<^verbatim>\<open>NULL\<close> is a \<open>TSTree option\<close>.
\<close>

record tree_info =
  symbol :: TSSymbol
  padding_chars :: nat
  size_chars :: nat
  error_size :: nat
  extra :: bool
  lex_state :: TSStateId
  parse_state :: TSStateId
  fragile_left :: bool
  fragile_right :: bool
  has_changes :: bool
  visible :: bool
  named :: bool
  named_child_count :: nat
  visible_child_count :: nat

datatype TSTree = TSTree (info: tree_info) (children: "TSTree list")

datatype TSParseActionType =
  TSParseActionTypeError
| TSParseActionTypeShift
| TSParseActionTypeReduce
| TSParseActionTypeAccept
| TSParseActionTypeRecover

text \<open>
  \<^verbatim>\<open>TSParseAction\<close>: \<^verbatim>\<open>type\<close>, the \<^verbatim>\<open>data\<close> union (\<^verbatim>\<open>to_state\<close>, or \<^verbatim>\<open>symbol\<close> with
  \<^verbatim>\<open>child_count\<close>) written as three fields, and the three flag bits.
\<close>

record TSParseAction =
  action_type :: TSParseActionType
  to_state :: TSStateId
  action_symbol :: TSSymbol
  child_count :: nat
  action_extra :: bool
  action_fragile :: bool
  can_hide_split :: bool

text \<open>\<^verbatim>\<open>static const TSParseAction ERROR_ACTION = {.type = TSParseActionTypeError }\<close>\<close>

definition ERROR_ACTION :: TSParseAction where
  "ERROR_ACTION = \<lparr>action_type = TSParseActionTypeError, to_state = 0, action_symbol = 0,
     child_count = 0, action_extra = False, action_fragile = False, can_hide_split = False\<rparr>"

record TSSymbolMetadata =
  md_visible :: bool
  md_named :: bool
  md_extra :: bool
  md_structural :: bool

text \<open>
  The language table. runtime/language.h is not under src/, so the table and its
  accessors are parameters of the model: every theorem below holds for every table.
\<close>

record TSLanguage =
  symbol_count :: nat
  ts_language_actions :: "TSStateId \<Rightarrow> TSSymbol \<Rightarrow> TSParseAction list"
  ts_language_last_action :: "TSStateId \<Rightarrow> TSSymbol \<Rightarrow> TSParseAction"
  ts_language_has_action :: "TSStateId \<Rightarrow> TSSymbol \<Rightarrow> bool"
  ts_language_lex_state :: "TSStateId \<Rightarrow> TSStateId"
  ts_language_symbol_metadata :: "TSSymbol \<Rightarrow> TSSymbolMetadata"

text \<open>
  The tree primitives of runtime/tree.c (not under src/) are parameters as well. A
  constructor that can return \<^verbatim>\<open>NULL\<close> returns an option. \<^verbatim>\<open>ts_tree_make_error\<close> takes
  size, padding and the unexpected character; \<^verbatim>\<open>ts_tree_make_leaf\<close> takes symbol,
  padding, size and metadata; \<^verbatim>\<open>ts_tree_make_node\<close> takes the symbol, the children (the
  first \<^verbatim>\<open>child_count\<close> elements of the array) and metadata.
\<close>

record tree_ops =
  ts_tree_make_leaf :: "TSSymbol \<Rightarrow> nat \<Rightarrow> nat \<Rightarrow> TSSymbolMetadata \<Rightarrow> TSTree option"
  ts_tree_make_error :: "nat \<Rightarrow> nat \<Rightarrow> nat \<Rightarrow> TSTree option"
  ts_tree_make_node :: "TSSymbol \<Rightarrow> TSTree list \<Rightarrow> TSSymbolMetadata \<Rightarrow> TSTree option"
  ts_tree_make_error_node :: "TSTree list \<Rightarrow> TSTree option"
  ts_tree_make_copy :: "TSTree \<Rightarrow> TSTree option"
  ts_tree_set_children :: "TSTree \<Rightarrow> TSTree list \<Rightarrow> TSTree"
  ts_tree_compare :: "TSTree \<Rightarrow> TSTree \<Rightarrow> int"

text \<open>
  Modelled from the spec: \<^verbatim>\<open>ts_tree_is_fragile\<close>, \<^verbatim>\<open>ts_tree_total_chars\<close> and
  \<^verbatim>\<open>ts_tree_array_essential_count\<close> are inline helpers of runtime/tree.h, which is not under
  src/. The spec: a tree is fragile when either flag is set; its total size is padding
  plus size; an extra tree is never counted as essential.
\<close>

definition ts_tree_is_fragile :: "TSTree \<Rightarrow> bool" where
  "ts_tree_is_fragile tree = (fragile_left (info tree) \<or> fragile_right (info tree))"

definition ts_tree_total_chars :: "TSTree \<Rightarrow> nat" where
  "ts_tree_total_chars tree = padding_chars (info tree) + size_chars (info tree)"

definition ts_tree_array_essential_count :: "TSTree list \<Rightarrow> nat" where
  "ts_tree_array_essential_count trees = length (filter (\<lambda>t. \<not> extra (info t)) trees)"

section \<open>Tree selection\<close>

text \<open>
  \<^verbatim>\<open>ts_parser__select_tree\<close>: true means that \<^verbatim>\<open>right\<close> replaces \<^verbatim>\<open>left\<close>. The logging
  macros have no effect on the result and are left out.
\<close>

definition ts_parser__select_tree :: "tree_ops \<Rightarrow> TSTree option \<Rightarrow> TSTree option \<Rightarrow> bool" where
  "ts_parser__select_tree T left right =
     (case left of
        None \<Rightarrow> True
      | Some l \<Rightarrow>
          (case right of
             None \<Rightarrow> False
           | Some r \<Rightarrow>
               if error_size (info r) < error_size (info l) then True
               else if error_size (info l) < error_size (info r) then False
               else
                 (let comparison = ts_tree_compare T l r in
                  if comparison = - 1 then False
                  else if comparison = 1 then True
                  else False)))"


section \<open>The stack interface\<close>

datatype StackPopStatus = StackPopFailed | StackPopStoppedAtError | StackPopSucceeded

record StackSlice =
  slice_trees :: "TSTree list"
  slice_version :: StackVersion

record StackPopResult =
  pop_status :: StackPopStatus
  pop_slices :: "StackSlice list"


record StackFrame =
  frame_state :: TSStateId
  frame_trees :: "TSTree list"
  frame_tree_count :: nat
  frame_is_done :: bool
  frame_is_pending :: bool

text \<open>
  The stack primitives of runtime/stack.c (not under src/) are parameters of the model:
  \<open>'s\<close> is the stack's state and every primitive returns the new state next to its
  result. \<^verbatim>\<open>ts_stack_push\<close> returns \<open>None\<close> for \<^verbatim>\<open>false\<close>. Modelled from the spec:
  \<^verbatim>\<open>ts_stack_iterate\<close> visits the frames below the top of a version from the top
  downward, calls the callback at each frame until it answers Stop, and pops at the
  frames where it answered Pop; the stack supplies the frames and performs the pops
  (\<open>ts_stack_iterate_frames\<close>, \<open>ts_stack_iterate_pop\<close>). \<open>stack_top_tree\<close> is no primitive
  that the driver calls: it is the tree of a version's top entry, \<open>None\<close> for a null
  tree, and serves to state what a push has left on a version.
\<close>

record 's stack_ops =
  ts_stack_version_count :: "'s \<Rightarrow> nat"
  ts_stack_top_state :: "'s \<Rightarrow> StackVersion \<Rightarrow> TSStateId"
  ts_stack_top_position :: "'s \<Rightarrow> StackVersion \<Rightarrow> nat"
  stack_top_tree :: "'s \<Rightarrow> StackVersion \<Rightarrow> TSTree option"
  ts_stack_push :: "'s \<Rightarrow> StackVersion \<Rightarrow> TSTree option \<Rightarrow> bool \<Rightarrow> TSStateId \<Rightarrow> 's option"
  ts_stack_pop_count :: "'s \<Rightarrow> StackVersion \<Rightarrow> nat \<Rightarrow> StackPopResult \<times> 's"
  ts_stack_pop_pending :: "'s \<Rightarrow> StackVersion \<Rightarrow> StackPopResult \<times> 's"
  ts_stack_pop_all :: "'s \<Rightarrow> StackVersion \<Rightarrow> StackPopResult \<times> 's"
  ts_stack_iterate_frames :: "'s \<Rightarrow> StackVersion \<Rightarrow> StackFrame list"
  ts_stack_iterate_pop :: "'s \<Rightarrow> StackVersion \<Rightarrow> bool list \<Rightarrow> StackPopResult \<times> 's"
  ts_stack_duplicate_version :: "'s \<Rightarrow> StackVersion \<Rightarrow> StackVersion option \<times> 's"
  ts_stack_renumber_version :: "'s \<Rightarrow> StackVersion \<Rightarrow> StackVersion \<Rightarrow> 's"
  ts_stack_remove_version :: "'s \<Rightarrow> StackVersion \<Rightarrow> 's"
  ts_stack_merge :: "'s \<Rightarrow> StackVersion \<Rightarrow> StackVersion \<Rightarrow> bool \<times> 's"
  ts_stack_merge_from :: "'s \<Rightarrow> StackVersion \<Rightarrow> 's"
  ts_stack_condense :: "'s \<Rightarrow> bool \<times> 's"
  ts_stack_clear :: "'s \<Rightarrow> 's"



section \<open>Reuse of a tree of the previous parse, and lexing\<close>

text \<open>\<^verbatim>\<open>ts_parser__can_reuse\<close>, check by check in the order of the source.\<close>

definition ts_parser__can_reuse ::
    "'s stack_ops \<Rightarrow> TSLanguage \<Rightarrow> 's \<Rightarrow> StackVersion \<Rightarrow> TSTree \<Rightarrow> bool" where
  "ts_parser__can_reuse S L stk version tree =
     (if symbol (info tree) = ts_builtin_sym_error then False
      else if ts_tree_is_fragile tree \<and>
              parse_state (info tree) \<noteq> ts_stack_top_state S stk version then False
      else
        (let top_state = ts_stack_top_state S stk version in
         if lex_state (info tree) \<noteq> TS_TREE_STATE_INDEPENDENT \<and>
            lex_state (info tree) \<noteq> ts_language_lex_state L top_state then False
         else
           (let action = ts_language_last_action L top_state (symbol (info tree)) in
            if action_type action = TSParseActionTypeError \<or> can_hide_split action then False
            else if extra (info tree) \<and> \<not> action_extra action then False
            else True)))"

record TSLexerResult =
  lr_symbol :: TSSymbol
  lr_size :: nat
  lr_padding :: nat
  lr_is_fragile :: bool
  lr_first_unexpected_character :: nat

text \<open>
  \<^verbatim>\<open>ts_parser__lex\<close>. The lexer (runtime/lexer.c and the generated \<^verbatim>\<open>lex_fn\<close>, not under
  src/) is the parameter \<open>lexfn\<close>: from the lexer's state \<open>'l\<close>, the lex state and the
  error mode it gives what \<^verbatim>\<open>ts_lexer_start\<close>, \<^verbatim>\<open>lex_fn\<close> and \<^verbatim>\<open>ts_lexer_finish\<close> leave in
  \<^verbatim>\<open>lex_result\<close>, and the lexer's new state. The parameter named \<^verbatim>\<open>state\<close> in the source is
  \<open>lstate\<close>.
\<close>

definition ts_parser__lex ::
    "tree_ops \<Rightarrow> TSLanguage \<Rightarrow> ('l \<Rightarrow> TSStateId \<Rightarrow> bool \<Rightarrow> TSLexerResult \<times> 'l) \<Rightarrow> 'l \<Rightarrow> TSStateId \<Rightarrow> bool
       \<Rightarrow> TSTree option \<times> 'l" where
  "ts_parser__lex T L lexfn lexer lstate error_mode =
     (let (lex_result, lexer1) = lexfn lexer lstate error_mode;
          result =
            (if lr_symbol lex_result = ts_builtin_sym_error
             then ts_tree_make_error T (lr_size lex_result) (lr_padding lex_result)
                    (lr_first_unexpected_character lex_result)
             else ts_tree_make_leaf T (lr_symbol lex_result) (lr_padding lex_result)
                    (lr_size lex_result)
                    (ts_language_symbol_metadata L (lr_symbol lex_result)))
      in case result of
           None \<Rightarrow> (None, lexer1)
         | Some r \<Rightarrow>
             (if lr_is_fragile lex_result
              then (Some (TSTree ((info r)\<lparr>lex_state := lstate\<rparr>) (children r)), lexer1)
              else (Some r, lexer1)))"

section \<open>Accept\<close>

text \<open>
  A read outside an array is a fault of its own (\<open>OutOfBounds\<close>), and so is a
  failed \<^verbatim>\<open>assert\<close>; a function that can fault returns \<open>fault + 'a\<close>. Allocation failures
  of the array helpers are not modelled.
\<close>

datatype fault = OutOfBounds | AssertionFailed

text \<open>
  The scan \<^verbatim>\<open>for (j = trees.size - 1; j + 1 > 0; j--)\<close> for the first tree that is not
  extra: \<open>accept_find_root trees n\<close> scans the indices below \<open>n\<close> from the right.
\<close>

fun accept_find_root :: "TSTree list \<Rightarrow> nat \<Rightarrow> nat option" where
  "accept_find_root trees 0 = None"
| "accept_find_root trees (Suc j) =
     (if \<not> extra (info (trees ! j)) then Some j else accept_find_root trees j)"

text \<open>
  The read \<^verbatim>\<open>root->children[j]\<close> after the splice. \<^verbatim>\<open>root->children\<close> is the array
  \<^verbatim>\<open>trees.contents\<close> that \<^verbatim>\<open>array_splice\<close> has just changed, and \<open>j\<close> is the index at which
  the root stood. When the root has no children and was the last tree of the slice, the
  array has shrunk by one and \<open>j\<close> is its new size: \<^verbatim>\<open>array_splice\<close> (runtime/array.h, not
  under src/) has then nothing to move or to copy, the slot keeps the pointer to the
  root, and the read yields the root itself. It is past the array's size in no other
  case.
\<close>

definition accept_sibling :: "nat \<Rightarrow> TSTree \<Rightarrow> TSTree option" where
  "accept_sibling j root =
     (if j < length (children root) then Some (children root ! j)
      else if j = length (children root) then Some root
      else None)"

text \<open>
  The loop \<^verbatim>\<open>for (k = j - 1; k + 1 > 0; k--) if (!root->children[k]->extra)
  root->error_size += root->children[j]->size.chars;\<close>: \<open>accept_error_loop j n root\<close> runs it
  for the indices below \<open>n\<close>. \<^verbatim>\<open>error_size\<close> is a \<^verbatim>\<open>size_t\<close>, the sum wraps at \<open>2 ^ 64\<close>.
\<close>

fun accept_error_loop :: "nat \<Rightarrow> nat \<Rightarrow> TSTree \<Rightarrow> fault + TSTree" where
  "accept_error_loop j 0 root = Inr root"
| "accept_error_loop j (Suc k) root =
     (if k < length (children root) then
        (if \<not> extra (info (children root ! k)) then
           (case accept_sibling j root of
              Some sibling \<Rightarrow>
                accept_error_loop j k
                  (TSTree ((info root)\<lparr>error_size :=
                      (error_size (info root) + size_chars (info sibling)) mod 2 ^ 64\<rparr>)
                    (children root))
            | None \<Rightarrow> Inl OutOfBounds)
         else accept_error_loop j k root)
      else Inl OutOfBounds)"

text \<open>
  The body of the loop over the popped slices, for one slice: the root, if the slice
  has a tree that is not extra, after \<^verbatim>\<open>array_splice\<close>, \<^verbatim>\<open>ts_tree_set_children\<close> and the
  loop over the preceding siblings.
\<close>

definition accept_root :: "tree_ops \<Rightarrow> TSTree list \<Rightarrow> fault + TSTree option" where
  "accept_root T trees =
     (case accept_find_root trees (length trees) of
        None \<Rightarrow> Inr None
      | Some j \<Rightarrow>
          (let root = trees ! j;
               spliced = take j trees @ children root @ drop (Suc j) trees;
               root1 = ts_tree_set_children T root spliced
           in case accept_error_loop j j root1 of
                Inl e \<Rightarrow> Inl e
              | Inr root2 \<Rightarrow> Inr (Some root2)))"

definition accept_slice :: "tree_ops \<Rightarrow> TSTree option \<Rightarrow> TSTree list \<Rightarrow> fault + TSTree option" where
  "accept_slice T finished trees =
     (case accept_root T trees of
        Inl e \<Rightarrow> Inl e
      | Inr None \<Rightarrow> Inr finished
      | Inr (Some root) \<Rightarrow>
          Inr (if ts_parser__select_tree T finished (Some root) then Some root else finished))"

fun accept_slices :: "tree_ops \<Rightarrow> TSTree option \<Rightarrow> StackSlice list \<Rightarrow> fault + TSTree option" where
  "accept_slices T finished [] = Inr finished"
| "accept_slices T finished (sl # rest) =
     (case accept_slice T finished (slice_trees sl) of
        Inl e \<Rightarrow> Inl e
      | Inr finished1 \<Rightarrow> accept_slices T finished1 rest)"

text \<open>
  The parser's own state: the stack, the finished tree, \<^verbatim>\<open>is_split\<close>, the scratch tree
  and the reduce-action buffer (declared below with the repair search).
\<close>

record ReduceAction =
  ra_symbol :: TSSymbol
  ra_count :: nat

record 's TSParser =
  stack :: 's
  finished_tree :: "TSTree option"
  is_split :: bool
  scratch_tree :: TSTree
  reduce_actions :: "ReduceAction list"

text \<open>\<^verbatim>\<open>ts_parser__start\<close>; the lexer's input is part of the lexer parameter.\<close>

definition ts_parser__start :: "'s stack_ops \<Rightarrow> 's TSParser \<Rightarrow> 's TSParser" where
  "ts_parser__start S self = self\<lparr>stack := ts_stack_clear S (stack self), finished_tree := None\<rparr>"

definition ts_parser__accept ::
    "'s stack_ops \<Rightarrow> tree_ops \<Rightarrow> 's TSParser \<Rightarrow> StackVersion \<Rightarrow> fault + (bool \<times> 's TSParser)" where
  "ts_parser__accept S T self version =
     (let (pop, stack1) = ts_stack_pop_all S (stack self) version in
      if pop_status pop = StackPopFailed then Inr (False, self\<lparr>stack := stack1\<rparr>)
      else if pop_slices pop = [] then Inr (False, self\<lparr>stack := stack1\<rparr>)
      else
        (case accept_slices T (finished_tree self) (pop_slices pop) of
           Inl e \<Rightarrow> Inl e
         | Inr finished \<Rightarrow>
             (let stack2 = ts_stack_remove_version S stack1 (slice_version (hd (pop_slices pop)));
                  stack3 = ts_stack_remove_version S stack2 version
              in Inr (True, self\<lparr>stack := stack3, finished_tree := finished\<rparr>))))"

section \<open>Error repair: the validity check\<close>

text \<open>
  The inner loop of \<^verbatim>\<open>ts_parser__is_valid_repair\<close> over \<^verbatim>\<open>trees_above\<close>: the state after the
  loop, or \<open>None\<close> where the function returns false. The variable named \<^verbatim>\<open>state\<close> in the
  source is \<open>st\<close>.
\<close>

fun valid_repair_above :: "TSLanguage \<Rightarrow> TSStateId \<Rightarrow> TSTree list \<Rightarrow> TSStateId option" where
  "valid_repair_above L st [] = Some st"
| "valid_repair_above L st (tree # rest) =
     (let action = ts_language_last_action L st (symbol (info tree)) in
      if action_type action \<noteq> TSParseActionTypeShift then None
      else if action_extra action \<or> extra (info tree) then valid_repair_above L st rest
      else valid_repair_above L (to_state action) rest)"

text \<open>The loop over \<^verbatim>\<open>actions[k]\<close> that returns true at a reduce action for the goal symbol.\<close>

definition has_reduce_for :: "TSParseAction list \<Rightarrow> TSSymbol \<Rightarrow> bool" where
  "has_reduce_for actions goal_symbol =
     list_ex (\<lambda>a. action_type a = TSParseActionTypeReduce \<and> action_symbol a = goal_symbol) actions"

text \<open>
  The outer loop \<^verbatim>\<open>for (i = trees_below->size - 1; i + 1 > 0; i--)\<close>, over the trees in
  the order it visits them (the array from its last element backwards). After the inner
  loop the outer one goes on in the state the inner loop reached, as in the source, where
  both write the same variable.
\<close>

fun valid_repair_below ::
    "TSLanguage \<Rightarrow> TSTree list \<Rightarrow> TSTree list \<Rightarrow> TSStateId \<Rightarrow> nat \<Rightarrow> TSSymbol \<Rightarrow> nat \<Rightarrow> TSSymbol \<Rightarrow> bool" where
  "valid_repair_below L [] trees_above st count_below goal_symbol goal_count_below lookahead = False"
| "valid_repair_below L (tree # rest) trees_above st count_below goal_symbol goal_count_below lookahead =
     (let action = ts_language_last_action L st (symbol (info tree)) in
      if action_type action \<noteq> TSParseActionTypeShift then False
      else if action_extra action \<or> extra (info tree)
        then valid_repair_below L rest trees_above st count_below goal_symbol goal_count_below lookahead
      else
        (let st1 = to_state action; count_below1 = count_below + 1 in
         if count_below1 = goal_count_below then
           (case valid_repair_above L st1 trees_above of
              None \<Rightarrow> False
            | Some st2 \<Rightarrow>
                if has_reduce_for (ts_language_actions L st2 lookahead) goal_symbol then True
                else valid_repair_below L rest trees_above st2 count_below1 goal_symbol
                       goal_count_below lookahead)
         else valid_repair_below L rest trees_above st1 count_below1 goal_symbol
                goal_count_below lookahead))"

definition ts_parser__is_valid_repair ::
    "TSLanguage \<Rightarrow> TSTree list \<Rightarrow> TSTree list \<Rightarrow> TSStateId \<Rightarrow> TSSymbol \<Rightarrow> nat \<Rightarrow> TSSymbol \<Rightarrow> bool" where
  "ts_parser__is_valid_repair L trees_below trees_above start_state goal_symbol goal_count_below
       lookahead =
     valid_repair_below L (rev trees_below) trees_above start_state 0 goal_symbol goal_count_below
       lookahead"

text \<open>
  The validity check in the spec's words: simulate the shift of one tree (it needs a
  shift action; an extra tree or action leaves the state alone), of every tree of a
  sequence, and of a sequence up to its \<open>n\<close>-th tree that is not extra; then look in the
  action list of the state reached for a reduce action for the candidate's symbol,
  with any child count (\<open>simulated_repair\<close>) or with the child count \<open>n\<close> given
  (\<open>simulated_repair_with_count\<close>).
\<close>

definition simulate_shift :: "TSLanguage \<Rightarrow> TSStateId \<Rightarrow> TSTree \<Rightarrow> (bool \<times> TSStateId) option" where
  "simulate_shift L st tree =
     (let action = ts_language_last_action L st (symbol (info tree)) in
      if action_type action \<noteq> TSParseActionTypeShift then None
      else if action_extra action \<or> extra (info tree) then Some (False, st)
      else Some (True, to_state action))"

fun simulate_shifts :: "TSLanguage \<Rightarrow> TSStateId \<Rightarrow> TSTree list \<Rightarrow> TSStateId option" where
  "simulate_shifts L st [] = Some st"
| "simulate_shifts L st (tree # rest) =
     (case simulate_shift L st tree of
        None \<Rightarrow> None
      | Some (counted, st1) \<Rightarrow> simulate_shifts L st1 rest)"

fun simulate_count :: "TSLanguage \<Rightarrow> TSStateId \<Rightarrow> TSTree list \<Rightarrow> nat \<Rightarrow> TSStateId option" where
  "simulate_count L st trees 0 = Some st"
| "simulate_count L st [] (Suc n) = None"
| "simulate_count L st (tree # rest) (Suc n) =
     (case simulate_shift L st tree of
        None \<Rightarrow> None
      | Some (counted, st1) \<Rightarrow> simulate_count L st1 rest (if counted then n else Suc n))"

definition simulated_state ::
    "TSLanguage \<Rightarrow> TSTree list \<Rightarrow> TSTree list \<Rightarrow> TSStateId \<Rightarrow> nat \<Rightarrow> TSStateId option" where
  "simulated_state L trees_below trees_above start_state goal_count_below =
     (case simulate_count L start_state (rev trees_below) goal_count_below of
        None \<Rightarrow> None
      | Some st1 \<Rightarrow> simulate_shifts L st1 trees_above)"

definition simulated_repair ::
    "TSLanguage \<Rightarrow> TSTree list \<Rightarrow> TSTree list \<Rightarrow> TSStateId \<Rightarrow> TSSymbol \<Rightarrow> nat \<Rightarrow> TSSymbol \<Rightarrow> bool" where
  "simulated_repair L trees_below trees_above start_state goal_symbol goal_count_below lookahead =
     (case simulated_state L trees_below trees_above start_state goal_count_below of
        None \<Rightarrow> False
      | Some st2 \<Rightarrow>
          list_ex (\<lambda>a. action_type a = TSParseActionTypeReduce \<and> action_symbol a = goal_symbol)
            (ts_language_actions L st2 lookahead))"

definition simulated_repair_with_count ::
    "TSLanguage \<Rightarrow> TSTree list \<Rightarrow> TSTree list \<Rightarrow> TSStateId \<Rightarrow> TSSymbol \<Rightarrow> nat \<Rightarrow> TSSymbol \<Rightarrow> nat \<Rightarrow> bool" where
  "simulated_repair_with_count L trees_below trees_above start_state goal_symbol goal_count_below
       lookahead n =
     (case simulated_state L trees_below trees_above start_state goal_count_below of
        None \<Rightarrow> False
      | Some st2 \<Rightarrow>
          list_ex (\<lambda>a. action_type a = TSParseActionTypeReduce \<and> action_symbol a = goal_symbol
                       \<and> child_count a = n)
            (ts_language_actions L st2 lookahead))"

section \<open>Error repair: the search\<close>












section \<open>Reduce\<close>













section \<open>The main loop\<close>

datatype ParseActionResult = ParseActionFailed | ParseActionUpdated | ParseActionRemoved

text \<open>
  The variables of \<^verbatim>\<open>ts_parser_parse\<close> that its loops share, next to the parser itself.
  \<open>'r\<close> is the reusable node: \<^verbatim>\<open>ts_parser__get_lookahead\<close> and the cursor over the previous
  tree, and \<^verbatim>\<open>ts_parser__consume_lookahead\<close>, are parameters \<open>G\<close> and \<open>C\<close> of the loops.
\<close>

record ('s, 'r) ParseWalk =
  pw_parser :: "'s TSParser"
  pw_max_position :: nat
  pw_version :: StackVersion
  pw_lookahead :: "TSTree option"
  pw_position :: nat
  pw_last_position :: nat
  pw_reusable_node :: 'r
  pw_current_reusable_node :: 'r

text \<open>
  The test at the head of the innermost loop: the new \<^verbatim>\<open>max_position\<close> where the loop is
  left with \<^verbatim>\<open>version++\<close>, \<open>None\<close> where the version is processed.
\<close>

definition parse_advance :: "nat \<Rightarrow> nat \<Rightarrow> StackVersion \<Rightarrow> nat option" where
  "parse_advance new_position max_position version =
     (if new_position > max_position then Some new_position
      else if new_position = max_position \<and> version > 0 then Some max_position
      else None)"

text \<open>
  The same test in the words of the claim: the position strictly exceeds
  \<^verbatim>\<open>max_position\<close>, or it is at or behind \<^verbatim>\<open>max_position\<close> and the index is greater than 0.
\<close>

definition claimed_advance :: "nat \<Rightarrow> nat \<Rightarrow> StackVersion \<Rightarrow> bool" where
  "claimed_advance new_position max_position version =
     (new_position > max_position \<or> (new_position \<le> max_position \<and> version > 0))"

text \<open>
  The rest of the loop body: the lookahead is kept or fetched anew, then consumed.
  \<open>None\<close> where \<^verbatim>\<open>ts_parser__get_lookahead\<close> returns \<^verbatim>\<open>NULL\<close>.
\<close>

definition parse_process ::
    "'s stack_ops \<Rightarrow> TSLanguage
     \<Rightarrow> ('s TSParser \<Rightarrow> StackVersion \<Rightarrow> 'r \<Rightarrow> TSTree option \<times> 'r \<times> 's TSParser)
     \<Rightarrow> ('s TSParser \<Rightarrow> StackVersion \<Rightarrow> TSTree \<Rightarrow> ParseActionResult \<times> 's TSParser)
     \<Rightarrow> ('s, 'r) ParseWalk \<Rightarrow> (ParseActionResult \<times> ('s, 'r) ParseWalk) option" where
  "parse_process S L G C w =
     (let keep =
            (case pw_lookahead w of
               None \<Rightarrow> False
             | Some la \<Rightarrow>
                 pw_position w = pw_last_position w \<and>
                 ts_parser__can_reuse S L (stack (pw_parser w)) (pw_version w) la);
          w1 = (if keep then w
                else (let (la, r, p) = G (pw_parser w) (pw_version w) (pw_reusable_node w)
                      in w\<lparr>pw_lookahead := la, pw_reusable_node := r, pw_parser := p\<rparr>))
      in case pw_lookahead w1 of
           None \<Rightarrow> None
         | Some la \<Rightarrow>
             (let (result, p) = C (pw_parser w1) (pw_version w1) la
              in Some (result, w1\<lparr>pw_parser := p\<rparr>)))"

datatype ('s, 'r) VersionExit =
  VersionAdvanced "('s, 'r) ParseWalk"
| VersionRemoved "('s, 'r) ParseWalk"
| ParseReturnNull
| ParseError

text \<open>
  The innermost loop \<^verbatim>\<open>for (bool removed = false; !removed;)\<close>. It need not end: the
  result is \<open>None\<close> where it runs forever.
\<close>

partial_function (option) parse_version ::
    "'s stack_ops \<Rightarrow> TSLanguage
     \<Rightarrow> ('s TSParser \<Rightarrow> StackVersion \<Rightarrow> 'r \<Rightarrow> TSTree option \<times> 'r \<times> 's TSParser)
     \<Rightarrow> ('s TSParser \<Rightarrow> StackVersion \<Rightarrow> TSTree \<Rightarrow> ParseActionResult \<times> 's TSParser)
     \<Rightarrow> ('s, 'r) ParseWalk \<Rightarrow> ('s, 'r) VersionExit option" where
  "parse_version S L G C w =
     (let new_position = ts_stack_top_position S (stack (pw_parser w)) (pw_version w) in
      case parse_advance new_position (pw_max_position w) (pw_version w) of
        Some m \<Rightarrow>
          Some (VersionAdvanced (w\<lparr>pw_last_position := pw_position w, pw_max_position := m,
                                     pw_version := pw_version w + 1\<rparr>))
      | None \<Rightarrow>
          (case parse_process S L G C
                  (w\<lparr>pw_last_position := pw_position w, pw_position := new_position\<rparr>) of
             None \<Rightarrow> Some ParseReturnNull
           | Some (result, w1) \<Rightarrow>
               (if result = ParseActionFailed then Some ParseError
                else if result = ParseActionRemoved then Some (VersionRemoved w1)
                else parse_version S L G C w1)))"

text \<open>
  What holds of the way the innermost loop is left, for the walk \<open>w\<close> at its start: with
  \<^verbatim>\<open>version++\<close> only where the version's top position exceeds the \<^verbatim>\<open>max_position\<close> of the
  start (which then becomes the new maximum) or equals it at an index above 0; with the
  same index and maximum where the version was removed.
\<close>

definition version_exit_ok ::
    "'s stack_ops \<Rightarrow> ('s, 'r) ParseWalk \<Rightarrow> ('s, 'r) VersionExit \<Rightarrow> bool" where
  "version_exit_ok S w ex =
     (case ex of
        VersionAdvanced w1 \<Rightarrow>
          pw_version w1 = pw_version w + 1
          \<and> (pw_max_position w < ts_stack_top_position S (stack (pw_parser w1)) (pw_version w)
               \<and> pw_max_position w1 = ts_stack_top_position S (stack (pw_parser w1)) (pw_version w)
             \<or> ts_stack_top_position S (stack (pw_parser w1)) (pw_version w) = pw_max_position w
               \<and> 0 < pw_version w \<and> pw_max_position w1 = pw_max_position w)
      | VersionRemoved w1 \<Rightarrow>
          pw_version w1 = pw_version w \<and> pw_max_position w1 = pw_max_position w
      | ParseReturnNull \<Rightarrow> True
      | ParseError \<Rightarrow> True)"

text \<open>The walk over the versions, \<^verbatim>\<open>for (version = 0; version < version_count;)\<close>.\<close>

partial_function (option) parse_walk ::
    "'s stack_ops \<Rightarrow> TSLanguage
     \<Rightarrow> ('s TSParser \<Rightarrow> StackVersion \<Rightarrow> 'r \<Rightarrow> TSTree option \<times> 'r \<times> 's TSParser)
     \<Rightarrow> ('s TSParser \<Rightarrow> StackVersion \<Rightarrow> TSTree \<Rightarrow> ParseActionResult \<times> 's TSParser)
     \<Rightarrow> ('s, 'r) ParseWalk \<Rightarrow> ('s, 'r) VersionExit option" where
  "parse_walk S L G C w =
     (if pw_version w < ts_stack_version_count S (stack (pw_parser w)) then
        (case parse_version S L G C (w\<lparr>pw_reusable_node := pw_current_reusable_node w\<rparr>) of
           None \<Rightarrow> None
         | Some (VersionAdvanced w1) \<Rightarrow> parse_walk S L G C w1
         | Some (VersionRemoved w1) \<Rightarrow> parse_walk S L G C w1
         | Some ParseReturnNull \<Rightarrow> Some ParseReturnNull
         | Some ParseError \<Rightarrow> Some ParseError)
      else Some (VersionAdvanced w))"

text \<open>
  The outer loop and \<^verbatim>\<open>ts_parser_parse\<close>: each cycle sets \<^verbatim>\<open>is_split\<close>, walks the versions,
  condenses the stack, and returns the finished tree once no version is left.
  \<open>A\<close> is \<^verbatim>\<open>ts_tree_assign_parents\<close>, \<open>r0\<close> the reusable node for the previous tree.
\<close>

partial_function (option) parse_cycles ::
    "'s stack_ops \<Rightarrow> TSLanguage
     \<Rightarrow> ('s TSParser \<Rightarrow> StackVersion \<Rightarrow> 'r \<Rightarrow> TSTree option \<times> 'r \<times> 's TSParser)
     \<Rightarrow> ('s TSParser \<Rightarrow> StackVersion \<Rightarrow> TSTree \<Rightarrow> ParseActionResult \<times> 's TSParser)
     \<Rightarrow> (TSTree option \<Rightarrow> TSTree option)
     \<Rightarrow> 's TSParser \<Rightarrow> nat \<Rightarrow> 'r \<Rightarrow> TSTree option option" where
  "parse_cycles S L G C A self max_position r =
     (case parse_walk S L G C
             \<lparr>pw_parser = self\<lparr>is_split := ts_stack_version_count S (stack self) > 1\<rparr>,
              pw_max_position = max_position, pw_version = 0, pw_lookahead = None,
              pw_position = 0, pw_last_position = 0, pw_reusable_node = r,
              pw_current_reusable_node = r\<rparr> of
        None \<Rightarrow> None
      | Some (VersionAdvanced w) \<Rightarrow>
          (let (condensed, stack1) = ts_stack_condense S (stack (pw_parser w)) in
           if ts_stack_version_count S stack1 = 0
           then Some (A (finished_tree (pw_parser w)))
           else parse_cycles S L G C A ((pw_parser w)\<lparr>stack := stack1\<rparr>) (pw_max_position w)
                  (pw_reusable_node w))
      | Some other \<Rightarrow> Some None)"

definition ts_parser_parse ::
    "'s stack_ops \<Rightarrow> TSLanguage
     \<Rightarrow> ('s TSParser \<Rightarrow> StackVersion \<Rightarrow> 'r \<Rightarrow> TSTree option \<times> 'r \<times> 's TSParser)
     \<Rightarrow> ('s TSParser \<Rightarrow> StackVersion \<Rightarrow> TSTree \<Rightarrow> ParseActionResult \<times> 's TSParser)
     \<Rightarrow> (TSTree option \<Rightarrow> TSTree option)
     \<Rightarrow> 's TSParser \<Rightarrow> 'r \<Rightarrow> TSTree option option" where
  "ts_parser_parse S L G C A self r0 = parse_cycles S L G C A (ts_parser__start S self) 0 r0"

section \<open>The error handler\<close>

















section \<open>A concrete instance of the tree primitives\<close>

text \<open>
  Modelled from the spec: one implementation of the tree primitives, used to run the
  driver on concrete inputs. \<open>demo_compare\<close> is the pre-order symbol/shape comparison of
  the spec (symbol first, then the number of children, then the children from left to
  right); \<open>demo_set_children\<close> stores the children and recomputes \<open>error_size\<close> as the
  sum over the children, the size fields from the first child on (invariant I1).
\<close>

fun demo_compare :: "TSTree \<Rightarrow> TSTree \<Rightarrow> int"
  and demo_compare_list :: "TSTree list \<Rightarrow> TSTree list \<Rightarrow> int" where
  "demo_compare (TSTree li lc) (TSTree ri rc) =
     (if symbol li < symbol ri then - 1
      else if symbol ri < symbol li then 1
      else if length lc < length rc then - 1
      else if length rc < length lc then 1
      else demo_compare_list lc rc)"
| "demo_compare_list [] rs = 0"
| "demo_compare_list (l # ls) [] = 0"
| "demo_compare_list (l # ls) (r # rs) =
     (let c = demo_compare l r in if c = 0 then demo_compare_list ls rs else c)"

definition demo_info :: "TSSymbol \<Rightarrow> nat \<Rightarrow> nat \<Rightarrow> tree_info" where
  "demo_info smb pad sz =
     \<lparr>symbol = smb, padding_chars = pad, size_chars = sz, error_size = 0, extra = False,
      lex_state = TS_TREE_STATE_INDEPENDENT, parse_state = TS_TREE_STATE_ERROR,
      fragile_left = False, fragile_right = False, has_changes = False,
      visible = True, named = True, named_child_count = 0, visible_child_count = 0\<rparr>"

definition demo_leaf :: "TSSymbol \<Rightarrow> nat \<Rightarrow> TSTree" where
  "demo_leaf smb sz = TSTree (demo_info smb 0 sz) []"

definition demo_set_children :: "TSTree \<Rightarrow> TSTree list \<Rightarrow> TSTree" where
  "demo_set_children tree cs =
     TSTree ((info tree)
        \<lparr>padding_chars := (case cs of [] \<Rightarrow> padding_chars (info tree) | c # _ \<Rightarrow> padding_chars (info c)),
         size_chars := (case cs of [] \<Rightarrow> size_chars (info tree)
                        | c # rest \<Rightarrow> size_chars (info c) + sum_list (map ts_tree_total_chars rest)),
         error_size := sum_list (map (\<lambda>c. error_size (info c)) cs),
         named_child_count := length (filter (\<lambda>c. named (info c)) cs),
         visible_child_count := length (filter (\<lambda>c. visible (info c)) cs)\<rparr>) cs"

definition demo_tree_ops :: tree_ops where
  "demo_tree_ops =
     \<lparr>ts_tree_make_leaf = (\<lambda>smb pad sz md.
         Some (TSTree ((demo_info smb pad sz)\<lparr>extra := md_extra md, visible := md_visible md,
                         named := md_named md\<rparr>) [])),
      ts_tree_make_error = (\<lambda>sz pad c.
         Some (TSTree ((demo_info ts_builtin_sym_error pad sz)\<lparr>error_size := sz,
                         fragile_left := True, fragile_right := True\<rparr>) [])),
      ts_tree_make_node = (\<lambda>smb cs md.
         Some (demo_set_children
                 (TSTree ((demo_info smb 0 0)\<lparr>visible := md_visible md, named := md_named md\<rparr>) []) cs)),
      ts_tree_make_error_node = (\<lambda>cs.
         Some (let t = demo_set_children (TSTree (demo_info ts_builtin_sym_error 0 0) []) cs in
               TSTree ((info t)\<lparr>error_size := ts_tree_total_chars t,
                         fragile_left := True, fragile_right := True\<rparr>) cs)),
      ts_tree_make_copy = Some,
      ts_tree_set_children = demo_set_children,
      ts_tree_compare = demo_compare\<rparr>"

section \<open>A concrete stack and concrete tables\<close>

text \<open>
  Modelled from the spec: one implementation of the stack primitives, used to run the
  driver on concrete inputs. Its versions are linear (they share nothing): a version is
  the list of its entries (tree, pending flag, state), top first; the empty version is
  in state 0 at position 0. A pop leaves the popped version in place and adds the
  version that remains below the popped trees; a pop by count counts the trees that
  are not extra and stops in front of an entry in the error state; two versions merge
  when their top states and positions agree.
\<close>

type_synonym StackEntry = "TSTree option \<times> bool \<times> TSStateId"
type_synonym LinStack = "StackEntry list list"

definition lin_state :: "StackEntry list \<Rightarrow> TSStateId" where
  "lin_state es = (case es of [] \<Rightarrow> 0 | e # _ \<Rightarrow> snd (snd e))"

definition lin_tree :: "StackEntry list \<Rightarrow> TSTree option" where
  "lin_tree es = (case es of [] \<Rightarrow> None | e # _ \<Rightarrow> fst e)"

definition lin_position :: "StackEntry list \<Rightarrow> nat" where
  "lin_position es =
     sum_list (map (\<lambda>e. case fst e of None \<Rightarrow> 0 | Some t \<Rightarrow> ts_tree_total_chars t) es)"

definition lin_trees :: "StackEntry list \<Rightarrow> TSTree list" where
  "lin_trees es = List.map_filter fst es"

fun lin_take ::
    "StackEntry list \<Rightarrow> nat \<Rightarrow> TSTree list \<Rightarrow> StackPopStatus \<times> TSTree list \<times> StackEntry list" where
  "lin_take es 0 acc = (StackPopSucceeded, acc, es)"
| "lin_take [] (Suc n) acc = (StackPopSucceeded, acc, [])"
| "lin_take (e # es) (Suc n) acc =
     (if snd (snd e) = ts_parse_state_error then (StackPopStoppedAtError, acc, e # es)
      else (case fst e of
              None \<Rightarrow> lin_take es (Suc n) acc
            | Some tr \<Rightarrow> lin_take es (if extra (info tr) then Suc n else n) (tr # acc)))"

definition lin_remove :: "LinStack \<Rightarrow> StackVersion \<Rightarrow> LinStack" where
  "lin_remove st v = take v st @ drop (Suc v) st"

definition lin_same_top :: "StackEntry list \<Rightarrow> StackEntry list \<Rightarrow> bool" where
  "lin_same_top a b = (lin_state a = lin_state b \<and> lin_position a = lin_position b)"

fun lin_dedup :: "LinStack \<Rightarrow> LinStack \<Rightarrow> LinStack" where
  "lin_dedup [] kept = kept"
| "lin_dedup (e # es) kept =
     (if list_ex (lin_same_top e) kept then lin_dedup es kept else lin_dedup es (kept @ [e]))"

definition lin_pop_at :: "LinStack \<Rightarrow> StackVersion \<Rightarrow> nat list \<Rightarrow> StackPopResult \<times> LinStack" where
  "lin_pop_at st v ds =
     (\<lparr>pop_status = StackPopSucceeded,
       pop_slices = map (\<lambda>(i, d). \<lparr>slice_trees = rev (lin_trees (take d (st ! v))),
                                    slice_version = length st + i\<rparr>) (enumerate 0 ds)\<rparr>,
      st @ map (\<lambda>d. drop d (st ! v)) ds)"

definition lin_stack_ops :: "LinStack stack_ops" where
  "lin_stack_ops =
     \<lparr>ts_stack_version_count = length,
      ts_stack_top_state = (\<lambda>st v. if v < length st then lin_state (st ! v) else 0),
      ts_stack_top_position = (\<lambda>st v. if v < length st then lin_position (st ! v) else 0),
      stack_top_tree = (\<lambda>st v. if v < length st then lin_tree (st ! v) else None),
      ts_stack_push = (\<lambda>st v t p s.
         if v < length st then Some (st[v := (t, p, s) # st ! v]) else None),
      ts_stack_pop_count = (\<lambda>st v n.
         if v < length st then
           (let (status, ts, rest) = lin_take (st ! v) n [] in
            (\<lparr>pop_status = status,
              pop_slices = [\<lparr>slice_trees = ts, slice_version = length st\<rparr>]\<rparr>, st @ [rest]))
         else (\<lparr>pop_status = StackPopFailed, pop_slices = []\<rparr>, st)),
      ts_stack_pop_pending = (\<lambda>st v.
         if v < length st then
           (case st ! v of
              (Some t, True, s) # rest \<Rightarrow>
                (\<lparr>pop_status = StackPopSucceeded,
                  pop_slices = [\<lparr>slice_trees = [t], slice_version = length st\<rparr>]\<rparr>, st @ [rest])
            | _ \<Rightarrow> (\<lparr>pop_status = StackPopSucceeded, pop_slices = []\<rparr>, st))
         else (\<lparr>pop_status = StackPopFailed, pop_slices = []\<rparr>, st)),
      ts_stack_pop_all = (\<lambda>st v.
         if v < length st then lin_pop_at st v [length (st ! v)]
         else (\<lparr>pop_status = StackPopFailed, pop_slices = []\<rparr>, st)),
      ts_stack_iterate_frames = (\<lambda>st v.
         map (\<lambda>d. \<lparr>frame_state = lin_state (drop d (st ! v)),
                     frame_trees = lin_trees (take d (st ! v)),
                     frame_tree_count = ts_tree_array_essential_count (lin_trees (take d (st ! v))),
                     frame_is_done = (d = length (st ! v)),
                     frame_is_pending = False\<rparr>)
             [0 ..< Suc (length (st ! v))]),
      ts_stack_iterate_pop = (\<lambda>st v pops.
         lin_pop_at st v (filter (\<lambda>d. pops ! d) [0 ..< length pops])),
      ts_stack_duplicate_version = (\<lambda>st v.
         if v < length st then (Some (length st), st @ [st ! v]) else (None, st)),
      ts_stack_renumber_version = (\<lambda>st v1 v2. lin_remove (st[v2 := st ! v1]) v1),
      ts_stack_remove_version = lin_remove,
      ts_stack_merge = (\<lambda>st a b.
         if a < length st \<and> b < length st \<and> a \<noteq> b \<and> lin_same_top (st ! a) (st ! b)
         then (True, lin_remove st b) else (False, st)),
      ts_stack_merge_from = (\<lambda>st start. take start st @ lin_dedup (drop start st) []),
      ts_stack_condense = (\<lambda>st. (lin_dedup st [] \<noteq> st, lin_dedup st [])),
      ts_stack_clear = (\<lambda>st. [[]])\<rparr>"

text \<open>
  Modelled from the spec: a language given by its action table alone. The last action
  is the last element of the action list, the error action where the list is empty;
  there is an action where the last action is not the error action.
\<close>

definition shift_action :: "TSStateId \<Rightarrow> TSParseAction" where
  "shift_action s = ERROR_ACTION\<lparr>action_type := TSParseActionTypeShift, to_state := s\<rparr>"

definition reduce_action :: "TSSymbol \<Rightarrow> nat \<Rightarrow> TSParseAction" where
  "reduce_action smb n =
     ERROR_ACTION\<lparr>action_type := TSParseActionTypeReduce, action_symbol := smb, child_count := n\<rparr>"

definition table_last_action ::
    "(TSStateId \<Rightarrow> TSSymbol \<Rightarrow> TSParseAction list) \<Rightarrow> TSStateId \<Rightarrow> TSSymbol \<Rightarrow> TSParseAction" where
  "table_last_action tbl s y = (case tbl s y of [] \<Rightarrow> ERROR_ACTION | a # as \<Rightarrow> last (a # as))"

definition table_language ::
    "nat \<Rightarrow> (TSStateId \<Rightarrow> TSSymbol \<Rightarrow> TSParseAction list) \<Rightarrow> (TSStateId \<Rightarrow> TSStateId) \<Rightarrow> TSLanguage" where
  "table_language n tbl lexst =
     \<lparr>symbol_count = n,
      ts_language_actions = tbl,
      ts_language_last_action = table_last_action tbl,
      ts_language_has_action =
        (\<lambda>s y. action_type (table_last_action tbl s y) \<noteq> TSParseActionTypeError),
      ts_language_lex_state = lexst,
      ts_language_symbol_metadata =
        (\<lambda>y. \<lparr>md_visible = True, md_named = True, md_extra = False, md_structural = True\<rparr>)\<rparr>"

text \<open>
  A table for the reuse checks: in state 0, symbol 7 has a single reduce action and
  symbol 8 a single shift action; every state lexes in lex state 0.
\<close>

definition reuse_table :: "TSStateId \<Rightarrow> TSSymbol \<Rightarrow> TSParseAction list" where
  "reuse_table s y =
     (if s = 0 \<and> y = 7 then [reduce_action 9 1]
      else if s = 0 \<and> y = 8 then [shift_action 2]
      else [])"

definition reuse_language :: TSLanguage where
  "reuse_language = table_language 10 reuse_table (\<lambda>s. 0)"

text \<open>A lexer that always reports the fragile token 8 of size 1.\<close>

definition fragile_lexfn :: "unit \<Rightarrow> TSStateId \<Rightarrow> bool \<Rightarrow> TSLexerResult \<times> unit" where
  "fragile_lexfn lexer lstate error_mode =
     (\<lparr>lr_symbol = 8, lr_size = 1, lr_padding = 0, lr_is_fragile = True,
       lr_first_unexpected_character = 0\<rparr>, ())"

text \<open>
  A table for the validity check, for the rule 4 \<rightarrow> 1 2 3: state 0 shifts symbol 1 to
  state 1, state 1 shifts symbol 2 to state 2, state 2 shifts symbol 3 to state 3, and
  state 3 has, on the end symbol, a reduce action for symbol 4 whose child count is the
  table's parameter; state 0 shifts symbol 4 to state 4, which accepts on the end symbol.
\<close>

definition repair_table :: "nat \<Rightarrow> TSStateId \<Rightarrow> TSSymbol \<Rightarrow> TSParseAction list" where
  "repair_table n s y =
     (if s = 0 \<and> y = 1 then [shift_action 1]
      else if s = 1 \<and> y = 2 then [shift_action 2]
      else if s = 2 \<and> y = 3 then [shift_action 3]
      else if s = 3 \<and> y = 0 then [reduce_action 4 n]
      else if s = 0 \<and> y = 4 then [shift_action 4]
      else if s = 4 \<and> y = 0 then [ERROR_ACTION\<lparr>action_type := TSParseActionTypeAccept\<rparr>]
      else [])"

definition repair_language :: "nat \<Rightarrow> TSLanguage" where
  "repair_language n = table_language 5 (repair_table n) (\<lambda>s. 0)"

text \<open>
  Three trees in front of a root with one child, for the accept finalisation: the
  siblings have sizes 5 and 7, the root's child has size 2.
\<close>

definition accept_trees :: "TSTree list" where
  "accept_trees =
     [demo_leaf 1 5, demo_leaf 2 7, demo_set_children (demo_leaf 4 0) [demo_leaf 3 2]]"




text \<open>
  A lookahead source and a consumer for running the main loop: every lookahead is the
  token 1 of size 1, and consuming it pushes it on the version in state 1. The walk
  starts at version 1 of a stack whose version 0 is at position 2 and whose version 1
  is at position 0, with \<^verbatim>\<open>max_position\<close> 2.
\<close>

definition walk_lookahead ::
    "LinStack TSParser \<Rightarrow> StackVersion \<Rightarrow> unit \<Rightarrow> TSTree option \<times> unit \<times> LinStack TSParser" where
  "walk_lookahead self version r = (Some (demo_leaf 1 1), r, self)"

definition walk_consume ::
    "LinStack TSParser \<Rightarrow> StackVersion \<Rightarrow> TSTree \<Rightarrow> ParseActionResult \<times> LinStack TSParser" where
  "walk_consume self version la =
     (case ts_stack_push lin_stack_ops (stack self) version (Some la) False 1 of
        None \<Rightarrow> (ParseActionFailed, self)
      | Some stack1 \<Rightarrow> (ParseActionUpdated, self\<lparr>stack := stack1\<rparr>))"

definition walk_start :: "(LinStack, unit) ParseWalk" where
  "walk_start =
     \<lparr>pw_parser = \<lparr>stack = [[(Some (demo_leaf 1 2), False, 1)], []], finished_tree = None,
                    is_split = True, scratch_tree = demo_leaf 0 0, reduce_actions = []\<rparr>,
      pw_max_position = 2, pw_version = 1, pw_lookahead = None, pw_position = 2,
      pw_last_position = 0, pw_reusable_node = (), pw_current_reusable_node = ()\<rparr>"

definition walk_end :: "(LinStack, unit) ParseWalk" where
  "walk_end =
     \<lparr>pw_parser = \<lparr>stack = [[(Some (demo_leaf 1 2), False, 1)],
                              [(Some (demo_leaf 1 1), False, 1), (Some (demo_leaf 1 1), False, 1)]],
                    finished_tree = None,
                    is_split = True, scratch_tree = demo_leaf 0 0, reduce_actions = []\<rparr>,
      pw_max_position = 2, pw_version = 2, pw_lookahead = Some (demo_leaf 1 1), pw_position = 1,
      pw_last_position = 1, pw_reusable_node = (), pw_current_reusable_node = ()\<rparr>"



















text \<open>
  A slice whose root has no children and stands last, behind siblings of sizes 5 and 7;
  the root that the accept finalisation makes of it; and a parser with no finished tree
  whose only version holds these three trees.
\<close>

definition accept_last_trees :: "TSTree list" where
  "accept_last_trees = [demo_leaf 1 5, demo_leaf 2 7, demo_leaf 4 1]"

definition accept_last_root :: TSTree where
  "accept_last_root =
     TSTree ((demo_info 4 0 12)\<lparr>error_size := 24, named_child_count := 2,
                visible_child_count := 2\<rparr>) [demo_leaf 1 5, demo_leaf 2 7]"

definition accept_parser :: "LinStack TSParser" where
  "accept_parser =
     \<lparr>stack = [[(Some (demo_leaf 4 1), False, 3), (Some (demo_leaf 2 7), False, 2),
                (Some (demo_leaf 1 5), False, 1)]],
      finished_tree = None, is_split = False, scratch_tree = demo_leaf 0 0,
      reduce_actions = []\<rparr>"

text \<open>The leaf that this lexer yields in lex state \<open>lstate\<close>.\<close>

definition fragile_leaf :: "TSStateId \<Rightarrow> TSTree" where
  "fragile_leaf lstate = TSTree ((demo_info 8 0 1)\<lparr>lex_state := lstate\<rparr>) []"

section \<open>Properties\<close>

text \<open>
  C1. For two non-null candidates, \<^verbatim>\<open>select\<close> keeps the right tree exactly when its
  \<open>error_size\<close> is smaller, or the error sizes are equal and the structural comparison
  of left against right returns 1 (right is ordered strictly earlier). When the error
  sizes are equal and the comparison returns 0 (full structural equality), the left,
  existing tree is kept.
\<close>

theorem select_tree_non_null:
  "ts_parser__select_tree T (Some l) (Some r) =
     (error_size (info r) < error_size (info l) \<or>
      (error_size (info r) = error_size (info l) \<and> ts_tree_compare T l r = 1))
   \<and> (error_size (info r) = error_size (info l) \<and> ts_tree_compare T l r = 0
        \<longrightarrow> \<not> ts_parser__select_tree T (Some l) (Some r))"
  by (auto simp: ts_parser__select_tree_def Let_def)

theorem select_tree_non_null_witness:
  "ts_parser__select_tree demo_tree_ops (Some (demo_leaf 5 1)) (Some (demo_leaf 4 1))
   \<and> \<not> ts_parser__select_tree demo_tree_ops (Some (demo_leaf 4 1)) (Some (demo_leaf 4 1))
   \<and> demo_compare (demo_leaf 4 1) (demo_leaf 4 1) = 0"
proof -
  have eq: "demo_compare (demo_leaf 4 1) (demo_leaf 4 1) = 0"
    by (simp add: demo_leaf_def demo_info_def)
  have gt: "demo_compare (demo_leaf 5 1) (demo_leaf 4 1) = 1"
    by (simp add: demo_leaf_def demo_info_def)
  have a: "ts_parser__select_tree demo_tree_ops (Some (demo_leaf 5 1)) (Some (demo_leaf 4 1))"
    using select_tree_non_null [of demo_tree_ops "demo_leaf 5 1" "demo_leaf 4 1"] gt
    by (simp add: demo_tree_ops_def demo_leaf_def demo_info_def)
  have b: "\<not> ts_parser__select_tree demo_tree_ops (Some (demo_leaf 4 1)) (Some (demo_leaf 4 1))"
    using select_tree_non_null [of demo_tree_ops "demo_leaf 4 1" "demo_leaf 4 1"] eq
    by (simp add: demo_tree_ops_def)
  from a b eq show ?thesis by simp
qed

lemma accept_error_loop_numeral:
  "accept_error_loop j (numeral n) root = accept_error_loop j (Suc (pred_numeral n)) root"
  "accept_error_loop j 1 root = accept_error_loop j (Suc 0) root"
  by (simp_all add: numeral_eq_Suc)

lemma accept_last_find:
  "accept_find_root accept_last_trees (length accept_last_trees) = Some 2"
  by (simp add: accept_last_trees_def demo_leaf_def demo_info_def numeral_3_eq_3 numeral_2_eq_2)

lemma accept_last_run:
  "accept_root demo_tree_ops accept_last_trees = Inr (Some accept_last_root)"
  unfolding accept_root_def accept_last_find
  by (simp add: accept_last_trees_def accept_last_root_def demo_tree_ops_def
        demo_set_children_def demo_leaf_def demo_info_def ts_tree_total_chars_def
        accept_error_loop_numeral del: accept_error_loop.simps(2))
     (simp add: accept_error_loop.simps(2) accept_sibling_def)


lemma accept_slices_keep:
  "accept_slices T (Some r) slices = Inr finished \<Longrightarrow> finished \<noteq> None"
proof (induction slices arbitrary: r)
  case Nil
  then show ?case by auto
next
  case (Cons sl rest)
  from Cons.prems obtain r1 where
    "accept_slice T (Some r) (slice_trees sl) = Inr (Some r1)"
    "accept_slices T (Some r1) rest = Inr finished"
    by (auto simp: accept_slice_def split: sum.splits option.splits if_splits)
  from Cons.IH [OF this(2)] show ?case .
qed

lemma accept_slices_skip:
  "\<forall>s \<in> set pre. accept_root T (slice_trees s) = Inr None \<Longrightarrow>
     accept_slices T finished (pre @ slices) = accept_slices T finished slices"
  by (induction pre) (simp_all add: accept_slice_def)

text \<open>
  C9. A null existing tree always loses and a null challenger never wins: for every
  tree \<open>t\<close>, \<^verbatim>\<open>select(NULL, t)\<close> is true and \<^verbatim>\<open>select(t, NULL)\<close> is false. A parse starts
  with no finished tree. When \<^verbatim>\<open>ts_parser__accept\<close> runs with no finished tree, the root of
  the first popped slice that has one (a tree that is not extra) is installed whatever
  its \<open>error_size\<close>: the finished tree that accept leaves is the one that the remaining
  slices leave when they are compared against this root, it is not null, and it is this
  root when no slice follows.
\<close>

theorem select_tree_null:
  "ts_parser__select_tree T None (Some t)
   \<and> \<not> ts_parser__select_tree T (Some t) None
   \<and> finished_tree (ts_parser__start S self) = None
   \<and> (finished_tree self = None
        \<and> ts_stack_pop_all S (stack self) version = (pop, stk1)
        \<and> pop_status pop \<noteq> StackPopFailed
        \<and> pop_slices pop = pre @ sl # rest
        \<and> (\<forall>s \<in> set pre. accept_root T (slice_trees s) = Inr None)
        \<and> accept_root T (slice_trees sl) = Inr (Some root)
      \<longrightarrow> ts_parser__accept S T self version =
            (case accept_slices T (Some root) rest of
               Inl e \<Rightarrow> Inl e
             | Inr finished \<Rightarrow>
                 Inr (True, self\<lparr>stack := ts_stack_remove_version S
                                    (ts_stack_remove_version S stk1
                                       (slice_version (hd (pop_slices pop)))) version,
                                  finished_tree := finished\<rparr>))
          \<and> (\<forall>finished. accept_slices T (Some root) rest = Inr finished \<longrightarrow> finished \<noteq> None)
          \<and> (rest = [] \<longrightarrow>
                ts_parser__accept S T self version =
                  Inr (True, self\<lparr>stack := ts_stack_remove_version S
                                    (ts_stack_remove_version S stk1
                                       (slice_version (hd (pop_slices pop)))) version,
                                   finished_tree := Some root\<rparr>)))"
proof -
  have a: "ts_parser__select_tree T None (Some t)" "\<not> ts_parser__select_tree T (Some t) None"
    by (simp_all add: ts_parser__select_tree_def)
  have b: "finished_tree (ts_parser__start S self) = None"
    by (simp add: ts_parser__start_def)
  have c: "ts_parser__accept S T self version =
            (case accept_slices T (Some root) rest of
               Inl e \<Rightarrow> Inl e
             | Inr finished \<Rightarrow>
                 Inr (True, self\<lparr>stack := ts_stack_remove_version S
                                    (ts_stack_remove_version S stk1
                                       (slice_version (hd (pop_slices pop)))) version,
                                  finished_tree := finished\<rparr>))"
    if h: "finished_tree self = None
        \<and> ts_stack_pop_all S (stack self) version = (pop, stk1)
        \<and> pop_status pop \<noteq> StackPopFailed
        \<and> pop_slices pop = pre @ sl # rest
        \<and> (\<forall>s \<in> set pre. accept_root T (slice_trees s) = Inr None)
        \<and> accept_root T (slice_trees sl) = Inr (Some root)"
  proof -
    from h have "accept_slices T None (pop_slices pop) = accept_slices T (Some root) rest"
      by (simp add: accept_slices_skip accept_slice_def ts_parser__select_tree_def)
    with h show ?thesis
      by (auto simp: ts_parser__accept_def Let_def split: sum.splits)
  qed
  have d: "\<forall>finished. accept_slices T (Some root) rest = Inr finished \<longrightarrow> finished \<noteq> None"
    using accept_slices_keep by blast
  from a b c d show ?thesis by simp
qed

lemma accept_last_pop:
  "ts_stack_pop_all lin_stack_ops (stack accept_parser) 0
     = (\<lparr>pop_status = StackPopSucceeded,
          pop_slices = [\<lparr>slice_trees = accept_last_trees, slice_version = 1\<rparr>]\<rparr>,
        stack accept_parser @ [[]])"
  by code_simp

text \<open>
  The theorem of C9 applies to a parser whose version holds two siblings and a root
  without children: accept installs the root, whose \<open>error_size\<close> is 24, as the finished
  tree and removes the version.
\<close>

theorem select_tree_null_witness:
  "finished_tree accept_parser = None
   \<and> ts_stack_pop_all lin_stack_ops (stack accept_parser) 0
        = (\<lparr>pop_status = StackPopSucceeded,
             pop_slices = [\<lparr>slice_trees = accept_last_trees, slice_version = 1\<rparr>]\<rparr>,
           stack accept_parser @ [[]])
   \<and> accept_root demo_tree_ops accept_last_trees = Inr (Some accept_last_root)
   \<and> ts_parser__accept lin_stack_ops demo_tree_ops accept_parser 0
        = Inr (True, accept_parser\<lparr>stack := [], finished_tree := Some accept_last_root\<rparr>)
   \<and> error_size (info accept_last_root) = 24"
proof -
  have f: "finished_tree accept_parser = None"
    by (simp add: accept_parser_def)
  have n: "pop_status \<lparr>pop_status = StackPopSucceeded,
      pop_slices = [\<lparr>slice_trees = accept_last_trees, slice_version = 1\<rparr>]\<rparr> \<noteq> StackPopFailed"
    by simp
  have r: "ts_stack_remove_version lin_stack_ops
      (ts_stack_remove_version lin_stack_ops (stack accept_parser @ [[]]) 1) 0 = []"
    by code_simp
  have e: "error_size (info accept_last_root) = 24"
    by (simp add: accept_last_root_def demo_info_def)
  note t = select_tree_null [where T = demo_tree_ops and t = accept_last_root
      and S = lin_stack_ops and self = accept_parser and version = 0
      and pop = "\<lparr>pop_status = StackPopSucceeded,
        pop_slices = [\<lparr>slice_trees = accept_last_trees, slice_version = 1\<rparr>]\<rparr>"
      and ?stk1.0 = "stack accept_parser @ [[]]"
      and pre = "[]"
      and sl = "\<lparr>slice_trees = accept_last_trees, slice_version = 1\<rparr>" and rest = "[]"
      and root = accept_last_root]
  from t f accept_last_pop accept_last_run n
  have "ts_parser__accept lin_stack_ops demo_tree_ops accept_parser 0 =
      Inr (True, accept_parser\<lparr>stack := ts_stack_remove_version lin_stack_ops
              (ts_stack_remove_version lin_stack_ops (stack accept_parser @ [[]]) 1) 0,
            finished_tree := Some accept_last_root\<rparr>)"
    by simp
  with r f accept_last_pop accept_last_run e show ?thesis by simp
qed

text \<open>
  C4 (amended). \<^verbatim>\<open>can_reuse\<close> returns true only if the table's last action for the top
  state and the tree's symbol is not an error action and does not carry the
  \<^verbatim>\<open>can_hide_split\<close> flag; the action need not be a shift.
\<close>

theorem can_reuse_last_action:
  "ts_parser__can_reuse S L stk version tree \<Longrightarrow>
     action_type (ts_language_last_action L (ts_stack_top_state S stk version) (symbol (info tree)))
       \<noteq> TSParseActionTypeError
     \<and> \<not> can_hide_split
           (ts_language_last_action L (ts_stack_top_state S stk version) (symbol (info tree)))"
  by (simp add: ts_parser__can_reuse_def Let_def split: if_splits)

theorem can_reuse_last_action_witness:
  "ts_parser__can_reuse lin_stack_ops reuse_language [[]] 0 (demo_leaf 8 1)
   \<and> action_type (ts_language_last_action reuse_language
        (ts_stack_top_state lin_stack_ops [[]] 0) (symbol (info (demo_leaf 8 1))))
       = TSParseActionTypeShift
   \<and> \<not> can_hide_split (ts_language_last_action reuse_language
        (ts_stack_top_state lin_stack_ops [[]] 0) (symbol (info (demo_leaf 8 1))))"
proof -
  have r: "ts_parser__can_reuse lin_stack_ops reuse_language [[]] 0 (demo_leaf 8 1)"
    by (simp add: ts_parser__can_reuse_def lin_stack_ops_def reuse_language_def
        table_language_def table_last_action_def reuse_table_def shift_action_def ERROR_ACTION_def
        demo_leaf_def demo_info_def ts_tree_is_fragile_def lin_state_def
        ts_builtin_sym_error_def TS_TREE_STATE_INDEPENDENT_def)
  have s: "action_type (ts_language_last_action reuse_language
        (ts_stack_top_state lin_stack_ops [[]] 0) (symbol (info (demo_leaf 8 1))))
       = TSParseActionTypeShift"
    by (simp add: lin_stack_ops_def reuse_language_def
        table_language_def table_last_action_def reuse_table_def shift_action_def ERROR_ACTION_def
        demo_leaf_def demo_info_def lin_state_def)
  from can_reuse_last_action [OF r] r s show ?thesis by simp
qed

text \<open>
  C4 as stated fails: a leaf whose last action at the top state is a reduce action
  without the \<^verbatim>\<open>can_hide_split\<close> flag is reusable, although that action is no shift.
\<close>

theorem can_reuse_shift_only_counterexample:
  "ts_parser__can_reuse lin_stack_ops reuse_language [[]] 0 (demo_leaf 7 1)
   \<and> action_type (ts_language_last_action reuse_language
        (ts_stack_top_state lin_stack_ops [[]] 0) (symbol (info (demo_leaf 7 1))))
       = TSParseActionTypeReduce"
  by (simp add: ts_parser__can_reuse_def lin_stack_ops_def reuse_language_def
      table_language_def table_last_action_def reuse_table_def reduce_action_def ERROR_ACTION_def
      demo_leaf_def demo_info_def ts_tree_is_fragile_def lin_state_def
      ts_builtin_sym_error_def TS_TREE_STATE_INDEPENDENT_def)

text \<open>
  C10 (amended). When the lexer reports its result as fragile, the leaf that
  \<^verbatim>\<open>ts_parser__lex\<close> returns has its \<open>lex_state\<close> set to the lex state in which it was
  lexed; provided that lex state is not the value \<^verbatim>\<open>TS_TREE_STATE_INDEPENDENT\<close>, such a
  leaf passes \<^verbatim>\<open>can_reuse\<close> only at a top state that maps to the same lex state.
\<close>

theorem lex_fragile_lex_state:
  assumes "ts_parser__lex T L lexfn lexer lstate error_mode = (Some leaf, lexer1)"
    and "lr_is_fragile (fst (lexfn lexer lstate error_mode))"
  shows "lex_state (info leaf) = lstate
     \<and> (lstate \<noteq> TS_TREE_STATE_INDEPENDENT \<and> ts_parser__can_reuse S L stk version leaf
          \<longrightarrow> ts_language_lex_state L (ts_stack_top_state S stk version) = lstate)"
proof -
  from assms have ls: "lex_state (info leaf) = lstate"
    by (auto simp: ts_parser__lex_def Let_def split: prod.splits option.splits if_splits)
  show ?thesis
  proof (intro conjI impI)
    show "lex_state (info leaf) = lstate" by (rule ls)
  next
    assume a: "lstate \<noteq> TS_TREE_STATE_INDEPENDENT \<and> ts_parser__can_reuse S L stk version leaf"
    then show "ts_language_lex_state L (ts_stack_top_state S stk version) = lstate"
      using ls by (simp add: ts_parser__can_reuse_def Let_def split: if_splits)
  qed
qed

lemma lex_fragile_demo:
  "ts_parser__lex demo_tree_ops reuse_language fragile_lexfn () lstate False
     = (Some (fragile_leaf lstate), ())"
  by (simp add: ts_parser__lex_def fragile_lexfn_def demo_tree_ops_def reuse_language_def
      table_language_def fragile_leaf_def demo_info_def ts_builtin_sym_error_def)

lemma can_reuse_fragile_leaf:
  "ts_parser__can_reuse lin_stack_ops reuse_language [[]] 0 (fragile_leaf lstate)
     = (lstate = TS_TREE_STATE_INDEPENDENT \<or> lstate = 0)"
  by (simp add: ts_parser__can_reuse_def lin_stack_ops_def reuse_language_def
      table_language_def table_last_action_def reuse_table_def shift_action_def ERROR_ACTION_def
      fragile_leaf_def demo_info_def ts_tree_is_fragile_def lin_state_def
      ts_builtin_sym_error_def)

theorem lex_fragile_lex_state_witness:
  "ts_parser__lex demo_tree_ops reuse_language fragile_lexfn () 0 False = (Some (fragile_leaf 0), ())
   \<and> lr_is_fragile (fst (fragile_lexfn () 0 False))
   \<and> lex_state (info (fragile_leaf 0)) = 0
   \<and> (0 :: TSStateId) \<noteq> TS_TREE_STATE_INDEPENDENT
   \<and> ts_parser__can_reuse lin_stack_ops reuse_language [[]] 0 (fragile_leaf 0)
   \<and> ts_language_lex_state reuse_language (ts_stack_top_state lin_stack_ops [[]] 0) = 0"
proof -
  have f: "lr_is_fragile (fst (fragile_lexfn () 0 False))"
    by (simp add: fragile_lexfn_def)
  have n: "(0 :: TSStateId) \<noteq> TS_TREE_STATE_INDEPENDENT"
    by (simp add: TS_TREE_STATE_INDEPENDENT_def)
  have c: "ts_parser__can_reuse lin_stack_ops reuse_language [[]] 0 (fragile_leaf 0)"
    by (simp add: can_reuse_fragile_leaf)
  from lex_fragile_lex_state [OF lex_fragile_demo f, where S = lin_stack_ops and stk = "[[]]" and version = 0] n c
    lex_fragile_demo [of 0] f
  show ?thesis by simp
qed

text \<open>
  C10 as stated fails where the lex state is the value \<^verbatim>\<open>TS_TREE_STATE_INDEPENDENT\<close>: the
  fragile leaf lexed there carries that value as its \<open>lex_state\<close> and passes
  \<^verbatim>\<open>can_reuse\<close> at a top state whose lex state is 0.
\<close>

theorem lex_fragile_independent_counterexample:
  "ts_parser__lex demo_tree_ops reuse_language fragile_lexfn () TS_TREE_STATE_INDEPENDENT False
     = (Some (fragile_leaf TS_TREE_STATE_INDEPENDENT), ())
   \<and> lr_is_fragile (fst (fragile_lexfn () TS_TREE_STATE_INDEPENDENT False))
   \<and> ts_parser__can_reuse lin_stack_ops reuse_language [[]] 0 (fragile_leaf TS_TREE_STATE_INDEPENDENT)
   \<and> ts_language_lex_state reuse_language (ts_stack_top_state lin_stack_ops [[]] 0)
       \<noteq> TS_TREE_STATE_INDEPENDENT"
proof -
  have "ts_language_lex_state reuse_language (ts_stack_top_state lin_stack_ops [[]] 0)
       \<noteq> TS_TREE_STATE_INDEPENDENT"
    by (simp add: reuse_language_def table_language_def TS_TREE_STATE_INDEPENDENT_def)
  then show ?thesis
    by (simp add: lex_fragile_demo can_reuse_fragile_leaf fragile_lexfn_def)
qed

text \<open>
  C3, evaluated. The slice holds two siblings of sizes 5 and 7, neither extra, in
  front of the root, whose one child has size 2. After the splice the root's children
  are the two siblings and that child, and \<^verbatim>\<open>ts_tree_set_children\<close> leaves \<open>error_size\<close> at 0.
  The loop then adds \<^verbatim>\<open>root->children[j]->size.chars\<close>, the size 2 of the tree at the root's
  old index, once per preceding sibling: \<open>error_size\<close> ends at 4, not at the sum 12 of the
  siblings' sizes. With a root that has no children and stands last, the same read is
  of the slot behind the shrunken array, which still holds the root: behind the same
  two siblings the root's own size, 12 after \<^verbatim>\<open>ts_tree_set_children\<close>, is added twice and
  \<open>error_size\<close> ends at 24.
\<close>

theorem accept_error_size_evaluated:
  "(case accept_root demo_tree_ops accept_trees of
      Inr (Some root) \<Rightarrow>
        children root = [demo_leaf 1 5, demo_leaf 2 7, demo_leaf 3 2]
        \<and> error_size (info (demo_set_children (accept_trees ! 2) (children root))) = 0
        \<and> error_size (info root) = 4
    | _ \<Rightarrow> False)
   \<and> accept_find_root accept_trees (length accept_trees) = Some 2
   \<and> sum_list (map (\<lambda>t. size_chars (info t)) (filter (\<lambda>t. \<not> extra (info t)) (take 2 accept_trees))) = 12
   \<and> accept_root demo_tree_ops accept_last_trees = Inr (Some accept_last_root)
   \<and> size_chars (info accept_last_root) = 12
   \<and> error_size (info accept_last_root) = 24"
proof -
  have f: "accept_find_root accept_trees (length accept_trees) = Some 2"
    by (simp add: accept_trees_def demo_set_children_def demo_leaf_def demo_info_def
        numeral_3_eq_3 numeral_2_eq_2)
  have r: "accept_root demo_tree_ops accept_trees =
      Inr (Some (TSTree ((demo_info 4 0 5)\<lparr>error_size := 4, size_chars := 14, named_child_count := 3,
         visible_child_count := 3\<rparr>) [demo_leaf 1 5, demo_leaf 2 7, demo_leaf 3 2]))"
    unfolding accept_root_def f
    by (simp add: accept_trees_def demo_tree_ops_def demo_set_children_def demo_leaf_def
        demo_info_def ts_tree_total_chars_def accept_error_loop_numeral
        del: accept_error_loop.simps(2))
       (simp add: accept_error_loop.simps(2) accept_sibling_def)
  have o: "accept_root demo_tree_ops accept_last_trees = Inr (Some accept_last_root)"
    by (rule accept_last_run)
  have s: "size_chars (info accept_last_root) = 12" "error_size (info accept_last_root) = 24"
    by (simp_all add: accept_last_root_def demo_info_def)
  have z: "error_size (info (demo_set_children (accept_trees ! 2)
      [demo_leaf 1 5, demo_leaf 2 7, demo_leaf 3 2])) = 0"
    by (simp add: demo_set_children_def demo_leaf_def demo_info_def)
  have m: "sum_list (map (\<lambda>t. size_chars (info t)) (filter (\<lambda>t. \<not> extra (info t)) (take 2 accept_trees))) = 12"
    by (simp add: accept_trees_def demo_leaf_def demo_info_def numeral_2_eq_2)
  from f r o z m s show ?thesis by simp
qed

lemma valid_repair_above_simulate:
  "valid_repair_above L st trees = simulate_shifts L st trees"
  by (induction trees arbitrary: st) (simp_all add: simulate_shift_def Let_def)

lemma valid_repair_below_past_goal:
  "goal_count_below \<le> count_below \<Longrightarrow>
     \<not> valid_repair_below L trees trees_above st count_below goal_symbol goal_count_below lookahead"
  by (induction trees arbitrary: st count_below) (simp_all add: Let_def)

lemma valid_repair_below_simulate:
  "count_below < goal_count_below \<Longrightarrow>
     valid_repair_below L trees trees_above st count_below goal_symbol goal_count_below lookahead =
       (case simulate_count L st trees (goal_count_below - count_below) of
          None \<Rightarrow> False
        | Some st1 \<Rightarrow>
            (case simulate_shifts L st1 trees_above of
               None \<Rightarrow> False
             | Some st2 \<Rightarrow> has_reduce_for (ts_language_actions L st2 lookahead) goal_symbol))"
proof (induction trees arbitrary: st count_below)
  case Nil
  then obtain n where "goal_count_below - count_below = Suc n"
    by (cases "goal_count_below - count_below") auto
  then show ?case by simp
next
  case (Cons tree rest)
  obtain n where n: "goal_count_below - count_below = Suc n"
    using Cons.prems by (cases "goal_count_below - count_below") auto
  let ?a = "ts_language_last_action L st (symbol (info tree))"
  show ?case
  proof (cases "action_type ?a \<noteq> TSParseActionTypeShift")
    case True
    then show ?thesis by (simp add: n simulate_shift_def)
  next
    case shift: False
    show ?thesis
    proof (cases "action_extra ?a \<or> extra (info tree)")
      case True
      with shift Cons.IH [OF Cons.prems, of st] show ?thesis
        by (simp add: n simulate_shift_def)
    next
      case counted: False
      show ?thesis
      proof (cases "Suc count_below = goal_count_below")
        case True
        then have n0: "n = 0" using n by simp
        have past: "\<not> valid_repair_below L rest trees_above st2 (Suc count_below) goal_symbol
            goal_count_below lookahead" for st2
          using True by (intro valid_repair_below_past_goal) simp
        from shift counted True n0 past show ?thesis
          by (simp add: n simulate_shift_def valid_repair_above_simulate split: option.splits)
      next
        case False
        with Cons.prems have lt: "Suc count_below < goal_count_below" by simp
        have "goal_count_below - Suc count_below = n" using n by simp
        with shift counted False Cons.IH [OF lt, of "to_state ?a"] show ?thesis
          by (simp add: n simulate_shift_def)
      qed
    qed
  qed
qed

text \<open>
  C2 (amended). For a candidate with a positive count, \<^verbatim>\<open>ts_parser__is_valid_repair\<close>
  holds exactly if simulating the shifts of the trees below the error, from the end of
  the array backwards up to the \<open>goal_count_below\<close>-th tree that is not extra, and then
  the shifts of every tree above the error, reaches a state whose action list for the
  lookahead symbol contains a reduce action for the candidate's symbol. The child count
  of that reduce action is not compared with anything.
\<close>

theorem is_valid_repair_simulated:
  "0 < goal_count_below \<Longrightarrow>
     ts_parser__is_valid_repair L trees_below trees_above start_state goal_symbol goal_count_below
       lookahead =
     simulated_repair L trees_below trees_above start_state goal_symbol goal_count_below lookahead"
  by (simp add: ts_parser__is_valid_repair_def simulated_repair_def simulated_state_def
      valid_repair_below_simulate has_reduce_for_def split: option.splits)

lemma repair_demo_state:
  "simulated_state (repair_language n) [demo_leaf 2 1, demo_leaf 1 1] [demo_leaf 3 1] 0 2 = Some 3"
  by (simp add: simulated_state_def simulate_shift_def repair_language_def table_language_def
      table_last_action_def repair_table_def shift_action_def ERROR_ACTION_def demo_leaf_def
      demo_info_def numeral_2_eq_2)

theorem is_valid_repair_simulated_witness:
  "(0 :: nat) < 2
   \<and> ts_parser__is_valid_repair (repair_language 3) [demo_leaf 2 1, demo_leaf 1 1] [demo_leaf 3 1]
        0 4 2 0
   \<and> simulated_repair (repair_language 3) [demo_leaf 2 1, demo_leaf 1 1] [demo_leaf 3 1] 0 4 2 0"
proof -
  have s: "simulated_repair (repair_language 3) [demo_leaf 2 1, demo_leaf 1 1] [demo_leaf 3 1]
      0 4 2 0"
    unfolding simulated_repair_def repair_demo_state
    by (simp add: repair_language_def table_language_def repair_table_def reduce_action_def
          ERROR_ACTION_def)
  from s is_valid_repair_simulated [of 2 "repair_language 3" "[demo_leaf 2 1, demo_leaf 1 1]"
      "[demo_leaf 3 1]" 0 4 0]
  show ?thesis by simp
qed

text \<open>
  C2 as stated fails: with two trees below the error and one above, the original
  child count is 3; the state reached has a reduce action for the symbol with child
  count 5 only, and the repair is valid all the same.
\<close>

theorem is_valid_repair_count_counterexample:
  "ts_parser__is_valid_repair (repair_language 5) [demo_leaf 2 1, demo_leaf 1 1] [demo_leaf 3 1]
     0 4 2 0
   \<and> \<not> simulated_repair_with_count (repair_language 5) [demo_leaf 2 1, demo_leaf 1 1]
         [demo_leaf 3 1] 0 4 2 0
         (2 + ts_tree_array_essential_count [demo_leaf 3 1])"
proof -
  have a: "simulated_repair (repair_language 5) [demo_leaf 2 1, demo_leaf 1 1] [demo_leaf 3 1]
      0 4 2 0"
    unfolding simulated_repair_def repair_demo_state
    by (simp add: repair_language_def table_language_def repair_table_def reduce_action_def
          ERROR_ACTION_def)
  have v: "ts_parser__is_valid_repair (repair_language 5) [demo_leaf 2 1, demo_leaf 1 1]
      [demo_leaf 3 1] 0 4 2 0"
    using a is_valid_repair_simulated [of 2 "repair_language 5" "[demo_leaf 2 1, demo_leaf 1 1]"
      "[demo_leaf 3 1]" 0 4 0] by simp
  have b: "\<not> simulated_repair_with_count (repair_language 5) [demo_leaf 2 1, demo_leaf 1 1]
      [demo_leaf 3 1] 0 4 2 0 (2 + ts_tree_array_essential_count [demo_leaf 3 1])"
    unfolding simulated_repair_with_count_def repair_demo_state
    by (simp add: repair_language_def table_language_def repair_table_def reduce_action_def
          ERROR_ACTION_def ts_tree_array_essential_count_def demo_leaf_def demo_info_def)
  from v b show ?thesis by simp
qed








































lemma parse_process_frame:
  "parse_process S L G C w = Some (result, w1) \<Longrightarrow>
     pw_max_position w1 = pw_max_position w \<and> pw_version w1 = pw_version w"
  by (auto simp: parse_process_def Let_def split: option.splits if_splits prod.splits)

lemma version_exit_ok_frame:
  "pw_max_position w2 = pw_max_position w \<Longrightarrow> pw_version w2 = pw_version w \<Longrightarrow>
     version_exit_ok S w2 ex \<Longrightarrow> version_exit_ok S w ex"
  by (simp add: version_exit_ok_def split: VersionExit.splits)

lemma parse_version_exit:
  "parse_version S L G C w = Some ex \<Longrightarrow> version_exit_ok S w ex"
proof (rule parse_version.raw_induct
    [where P = "\<lambda>S L G C w ex. version_exit_ok S w ex" and S = S and L = L and G = G and C = C
       and w = w and y = ex])
  fix pv :: "'a stack_ops \<Rightarrow> TSLanguage
     \<Rightarrow> ('a TSParser \<Rightarrow> StackVersion \<Rightarrow> 'b \<Rightarrow> TSTree option \<times> 'b \<times> 'a TSParser)
     \<Rightarrow> ('a TSParser \<Rightarrow> StackVersion \<Rightarrow> TSTree \<Rightarrow> ParseActionResult \<times> 'a TSParser)
     \<Rightarrow> ('a, 'b) ParseWalk \<Rightarrow> ('a, 'b) VersionExit option"
  fix S :: "'a stack_ops" and L G C and w :: "('a, 'b) ParseWalk" and ex
  assume IH: "\<And>S L G C w ex. pv S L G C w = Some ex \<Longrightarrow> version_exit_ok S w ex"
  let ?np = "ts_stack_top_position S (stack (pw_parser w)) (pw_version w)"
  let ?w0 = "w\<lparr>pw_last_position := pw_position w, pw_position := ?np\<rparr>"
  assume body: "(let new_position = ts_stack_top_position S (stack (pw_parser w)) (pw_version w) in
      case parse_advance new_position (pw_max_position w) (pw_version w) of
        None \<Rightarrow>
          (case parse_process S L G C
                  (w\<lparr>pw_last_position := pw_position w, pw_position := new_position\<rparr>) of
             None \<Rightarrow> Some ParseReturnNull
           | Some (result, w1) \<Rightarrow>
               (if result = ParseActionFailed then Some ParseError
                else if result = ParseActionRemoved then Some (VersionRemoved w1)
                else pv S L G C w1))
      | Some m \<Rightarrow>
          Some (VersionAdvanced (w\<lparr>pw_last_position := pw_position w, pw_max_position := m,
                                     pw_version := pw_version w + 1\<rparr>))) = Some ex"
  show "version_exit_ok S w ex"
  proof (cases "parse_advance ?np (pw_max_position w) (pw_version w)")
    case (Some m)
    with body have ex: "ex = VersionAdvanced (w\<lparr>pw_last_position := pw_position w,
        pw_max_position := m, pw_version := pw_version w + 1\<rparr>)"
      by (simp add: Let_def)
    from Some have "(pw_max_position w < ?np \<and> m = ?np)
        \<or> (?np = pw_max_position w \<and> 0 < pw_version w \<and> m = pw_max_position w)"
      by (auto simp: parse_advance_def split: if_splits)
    then show ?thesis unfolding ex by (simp add: version_exit_ok_def)
  next
    case None
    show ?thesis
    proof (cases "parse_process S L G C ?w0")
      case pn: None
      with None body have "ex = ParseReturnNull" by (simp add: Let_def)
      then show ?thesis by (simp add: version_exit_ok_def)
    next
      case (Some rw)
      obtain result w2 where rw: "rw = (result, w2)" by (cases rw) auto
      from parse_process_frame [OF Some [unfolded rw]]
      have fr: "pw_max_position w2 = pw_max_position w" "pw_version w2 = pw_version w" by simp_all
      show ?thesis
      proof (cases result)
        case ParseActionFailed
        with None Some rw body have "ex = ParseError" by (simp add: Let_def)
        then show ?thesis by (simp add: version_exit_ok_def)
      next
        case ParseActionRemoved
        with None Some rw body have "ex = VersionRemoved w2" by (simp add: Let_def)
        with fr show ?thesis by (simp add: version_exit_ok_def)
      next
        case ParseActionUpdated
        with None Some rw body have "pv S L G C w2 = Some ex" by (simp add: Let_def)
        from version_exit_ok_frame [OF fr IH [OF this]] show ?thesis .
      qed
    qed
  qed
qed


lemma walk_run:
  "parse_version lin_stack_ops reuse_language walk_lookahead walk_consume walk_start
     = Some (VersionAdvanced walk_end)"
  apply (subst parse_version.simps)
  apply (simp add: walk_start_def lin_stack_ops_def parse_advance_def parse_process_def
      walk_lookahead_def walk_consume_def lin_position_def ts_tree_total_chars_def demo_leaf_def
      demo_info_def Let_def)
  apply (subst parse_version.simps)
  apply (simp add: lin_stack_ops_def parse_advance_def parse_process_def
      walk_lookahead_def walk_consume_def lin_position_def ts_tree_total_chars_def demo_leaf_def
      demo_info_def Let_def)
  apply (subst parse_version.simps)
  apply (simp add: walk_end_def lin_stack_ops_def parse_advance_def parse_process_def
      walk_lookahead_def walk_consume_def lin_position_def ts_tree_total_chars_def demo_leaf_def
      demo_info_def Let_def)
  done


text \<open>
  C5 (amended). In the innermost loop of \<^verbatim>\<open>ts_parser_parse\<close>, the walk leaves a version
  with \<^verbatim>\<open>version++\<close> only when the version's top position strictly exceeds the
  \<^verbatim>\<open>max_position\<close> at which the loop started (and becomes the new maximum), or equals it
  while the index is greater than 0. Until then the version is processed: as long as
  the test fails and \<^verbatim>\<open>consume_lookahead\<close> reports an update, the loop goes on with the same
  version, also for a version behind \<^verbatim>\<open>max_position\<close> at an index above 0. The loop is
  left without \<^verbatim>\<open>version++\<close> when the version was removed.
\<close>

theorem parse_version_advance:
  assumes "parse_version S L G C w = Some ex"
  shows "(\<forall>w1. ex = VersionAdvanced w1 \<longrightarrow>
            pw_version w1 = pw_version w + 1
            \<and> (pw_max_position w < ts_stack_top_position S (stack (pw_parser w1)) (pw_version w)
                 \<and> pw_max_position w1 = ts_stack_top_position S (stack (pw_parser w1)) (pw_version w)
               \<or> ts_stack_top_position S (stack (pw_parser w1)) (pw_version w) = pw_max_position w
                 \<and> 0 < pw_version w \<and> pw_max_position w1 = pw_max_position w))
       \<and> (\<forall>w1. ex = VersionRemoved w1 \<longrightarrow>
            pw_version w1 = pw_version w \<and> pw_max_position w1 = pw_max_position w)
       \<and> (\<forall>w2. parse_advance (ts_stack_top_position S (stack (pw_parser w)) (pw_version w))
                  (pw_max_position w) (pw_version w) = None
                \<and> parse_process S L G C
                     (w\<lparr>pw_last_position := pw_position w,
                        pw_position := ts_stack_top_position S (stack (pw_parser w)) (pw_version w)\<rparr>)
                   = Some (ParseActionUpdated, w2)
              \<longrightarrow> parse_version S L G C w = parse_version S L G C w2)
       \<and> (\<forall>new_position max_position version.
            (parse_advance new_position max_position version \<noteq> None)
              = (max_position < new_position \<or> (new_position = max_position \<and> 0 < version)))"
proof -
  from parse_version_exit [OF assms]
  have a: "(\<forall>w1. ex = VersionAdvanced w1 \<longrightarrow>
            pw_version w1 = pw_version w + 1
            \<and> (pw_max_position w < ts_stack_top_position S (stack (pw_parser w1)) (pw_version w)
                 \<and> pw_max_position w1 = ts_stack_top_position S (stack (pw_parser w1)) (pw_version w)
               \<or> ts_stack_top_position S (stack (pw_parser w1)) (pw_version w) = pw_max_position w
                 \<and> 0 < pw_version w \<and> pw_max_position w1 = pw_max_position w))
       \<and> (\<forall>w1. ex = VersionRemoved w1 \<longrightarrow>
            pw_version w1 = pw_version w \<and> pw_max_position w1 = pw_max_position w)"
    by (simp add: version_exit_ok_def split: VersionExit.splits)
  have b: "\<forall>w2. parse_advance (ts_stack_top_position S (stack (pw_parser w)) (pw_version w))
                  (pw_max_position w) (pw_version w) = None
                \<and> parse_process S L G C
                     (w\<lparr>pw_last_position := pw_position w,
                        pw_position := ts_stack_top_position S (stack (pw_parser w)) (pw_version w)\<rparr>)
                   = Some (ParseActionUpdated, w2)
              \<longrightarrow> parse_version S L G C w = parse_version S L G C w2"
  proof (intro allI impI)
    fix w2
    assume h: "parse_advance (ts_stack_top_position S (stack (pw_parser w)) (pw_version w))
                  (pw_max_position w) (pw_version w) = None
                \<and> parse_process S L G C
                     (w\<lparr>pw_last_position := pw_position w,
                        pw_position := ts_stack_top_position S (stack (pw_parser w)) (pw_version w)\<rparr>)
                   = Some (ParseActionUpdated, w2)"
    show "parse_version S L G C w = parse_version S L G C w2"
      by (subst parse_version.simps) (simp add: h Let_def)
  qed
  have c: "\<forall>new_position max_position version.
            (parse_advance new_position max_position version \<noteq> None)
              = (max_position < new_position \<or> (new_position = max_position \<and> 0 < version))"
    by (simp add: parse_advance_def)
  from a b c show ?thesis by blast
qed

lemma walk_positions:
  "ts_stack_top_position lin_stack_ops (stack (pw_parser walk_start)) 1 = 0"
  "ts_stack_top_position lin_stack_ops (stack (pw_parser walk_end)) 1 = 2"
  by (simp_all add: walk_start_def walk_end_def lin_stack_ops_def lin_position_def
      ts_tree_total_chars_def demo_leaf_def demo_info_def)

theorem parse_version_advance_witness:
  "parse_version lin_stack_ops reuse_language walk_lookahead walk_consume walk_start
     = Some (VersionAdvanced walk_end)
   \<and> pw_version walk_start = 1 \<and> pw_version walk_end = 2
   \<and> pw_max_position walk_start = 2 \<and> pw_max_position walk_end = 2
   \<and> ts_stack_top_position lin_stack_ops (stack (pw_parser walk_end)) (pw_version walk_start) = 2"
proof -
  have v: "pw_version walk_start = 1" "pw_max_position walk_start = 2"
    by (simp_all add: walk_start_def)
  from parse_version_advance [OF walk_run] walk_run walk_positions v show ?thesis
    by auto
qed

text \<open>
  C5 as stated fails: version 1 stands at position 0, behind \<^verbatim>\<open>max_position\<close> 2, so the
  claim's condition for advancing holds there; the loop does not advance but consumes
  two lookaheads first, and advances when the version has reached position 2.
\<close>

theorem parse_version_behind_counterexample:
  "claimed_advance (ts_stack_top_position lin_stack_ops (stack (pw_parser walk_start)) 1)
     (pw_max_position walk_start) (pw_version walk_start)
   \<and> parse_advance (ts_stack_top_position lin_stack_ops (stack (pw_parser walk_start)) 1)
        (pw_max_position walk_start) (pw_version walk_start) = None
   \<and> parse_version lin_stack_ops reuse_language walk_lookahead walk_consume walk_start
        = Some (VersionAdvanced walk_end)
   \<and> ts_stack_top_position lin_stack_ops (stack (pw_parser walk_start)) 1 = 0
   \<and> ts_stack_top_position lin_stack_ops (stack (pw_parser walk_end)) 1 = 2"
proof -
  have v: "pw_version walk_start = 1" "pw_max_position walk_start = 2"
    by (simp_all add: walk_start_def)
  show ?thesis
    unfolding walk_positions v
    by (simp add: walk_run claimed_advance_def parse_advance_def)
qed


































end
